theory Spec2Isabelle
  imports Main "HOL-Library.Word"
begin

section \<open>The CSV viewer page: ingestion, 3-D check, clearing and liveness probe\<close>

text \<open>
  The page component \<open>Home\<close> keeps five pieces of state (\<open>useState\<close>) and changes them
  only through their setters.  Each handler of the source is embedded as the list of
  setter calls it makes, in the order it makes them; \<open>commit\<close> applies such a list to
  the state, which is what the page shows once the handler has run.  The setters store
  the value given (none of them is called with an updater function), and the calls one
  handler makes are applied together before the page is drawn again, so the states in
  between are never shown.
\<close>

subsection \<open>Strings\<close>

text \<open>
  A JavaScript string is a sequence of 16-bit code units.  \<open>js\<close> writes an ASCII
  literal of the source as such a sequence.
\<close>

type_synonym jsstring = "16 word list"

definition js :: "string \<Rightarrow> jsstring" where
  "js s = map (\<lambda>c. of_nat (of_char c)) s"

text \<open>
  \<open>String.prototype.trim\<close> removes leading and trailing white space and line
  terminators; these are the code units ECMAScript lists for it (TAB, LF, VT, FF, CR,
  SP, NBSP, the space separators of Unicode, LS, PS and ZWNBSP).
\<close>

definition isWhiteSpace :: "16 word \<Rightarrow> bool" where
  "isWhiteSpace c =
     (c = 0x9 \<or> c = 0xA \<or> c = 0xB \<or> c = 0xC \<or> c = 0xD \<or> c = 0x20 \<or> c = 0xA0 \<or>
      c = 0x1680 \<or> (0x2000 \<le> c \<and> c \<le> 0x200A) \<or> c = 0x2028 \<or> c = 0x2029 \<or>
      c = 0x202F \<or> c = 0x205F \<or> c = 0x3000 \<or> c = 0xFEFF)"

definition trim :: "jsstring \<Rightarrow> jsstring" where
  "trim s = rev (dropWhile isWhiteSpace (rev (dropWhile isWhiteSpace s)))"

text \<open>\<open>String.prototype.endsWith\<close>, comparing code units.\<close>

definition endsWith :: "jsstring \<Rightarrow> jsstring \<Rightarrow> bool" where
  "endsWith s searchString =
     (length searchString \<le> length s \<and>
      drop (length s - length searchString) s = searchString)"

text \<open>
  An ASCII-only lower-casing, used to run the 3-D check on concrete headers.  The check
  itself takes the platform's \<open>toLowerCase\<close> as a parameter.
\<close>

definition asciiLowerUnit :: "16 word \<Rightarrow> 16 word" where
  "asciiLowerUnit c = (if 0x41 \<le> c \<and> c \<le> 0x5A then c + 0x20 else c)"

definition asciiLower :: "jsstring \<Rightarrow> jsstring" where
  "asciiLower s = map asciiLowerUnit s"

subsection \<open>Data model\<close>

record CSVData =
  headers :: "jsstring list"
  rows :: "jsstring list list"

record HomeState =
  csvData :: "CSVData option"
  loading :: bool
  error :: "jsstring option"
  fileName :: jsstring
  trameServerRunning :: bool

text \<open>The values the five \<open>useState\<close> hooks start with.\<close>

definition initialState :: HomeState where
  "initialState =
     \<lparr>csvData = None, loading = False, error = None, fileName = js '''',
      trameServerRunning = False\<rparr>"

text \<open>The part of a \<open>File\<close> the handler reads: its declared content type and its name.\<close>

record File =
  type :: jsstring
  name :: jsstring

text \<open>
  What the parsing library hands to the \<open>complete\<close> callback: the parsed rows and the
  errors it met.  Both can be non-empty at once.
\<close>

datatype ParseError = ParseError (code: jsstring) (message: jsstring)

record ParseResult =
  data :: "jsstring list list"
  errors :: "ParseError list"

text \<open>
  How \<open>await fetch(...)\<close> ends: with a response, whose \<open>ok\<close> is true for a status from
  200 to 299, or by throwing.
\<close>

record Response =
  status :: nat

definition ok :: "Response \<Rightarrow> bool" where
  "ok response = (200 \<le> status response \<and> status response \<le> 299)"

datatype FetchOutcome = Resolved Response | Rejected

subsection \<open>Setters\<close>

datatype Setter =
    SetCsvData "CSVData option"
  | SetLoading bool
  | SetError "jsstring option"
  | SetFileName jsstring
  | SetTrameServerRunning bool

fun applySetter :: "Setter \<Rightarrow> HomeState \<Rightarrow> HomeState" where
  "applySetter (SetCsvData v) s = s\<lparr>csvData := v\<rparr>"
| "applySetter (SetLoading v) s = s\<lparr>loading := v\<rparr>"
| "applySetter (SetError v) s = s\<lparr>error := v\<rparr>"
| "applySetter (SetFileName v) s = s\<lparr>fileName := v\<rparr>"
| "applySetter (SetTrameServerRunning v) s = s\<lparr>trameServerRunning := v\<rparr>"

fun commit :: "Setter list \<Rightarrow> HomeState \<Rightarrow> HomeState" where
  "commit [] s = s"
| "commit (c # cs) s = commit cs (applySetter c s)"

fun setsCsvData :: "Setter \<Rightarrow> bool" where
  "setsCsvData (SetCsvData v) = True"
| "setsCsvData c = False"

fun setsError :: "Setter \<Rightarrow> bool" where
  "setsError (SetError v) = True"
| "setsError c = False"

subsection \<open>Ingestion\<close>

text \<open>
  \<open>handleFileUpload\<close> up to the call of the parser.  The argument is
  \<open>event.target.files?.[0]\<close>; the result is the setter calls made and the file handed
  to the parser, if any.
\<close>

definition handleFileUpload :: "File option \<Rightarrow> Setter list \<times> File option" where
  "handleFileUpload file0 =
     (case file0 of
        None \<Rightarrow> ([], None)
      | Some file \<Rightarrow>
          if type file \<noteq> js ''text/csv'' \<and> \<not> endsWith (name file) (js ''.csv'')
          then ([SetError (Some (js ''Please upload a valid CSV file''))], None)
          else ([SetLoading True, SetError None, SetFileName (name file)], Some file))"

text \<open>The \<open>complete\<close> callback given to the parser.\<close>

definition complete :: "ParseResult \<Rightarrow> Setter list" where
  "complete results =
     (if length (errors results) > 0
      then [SetError (Some (js ''Error parsing CSV file'')), SetLoading False]
      else if length (data results) = 0
      then [SetError (Some (js ''CSV file is empty'')), SetLoading False]
      else
        [SetCsvData (Some
           \<lparr>headers = data results ! 0,
            rows = filter (\<lambda>row. list_ex (\<lambda>cell. trim cell \<noteq> js '''') row)
                     (drop 1 (data results))\<rparr>),
         SetLoading False])"

definition clearData :: "Setter list" where
  "clearData = [SetCsvData None, SetFileName (js ''''), SetError None]"

subsection \<open>3-D compatibility\<close>

definition requiredColumns :: "jsstring list" where
  "requiredColumns =
     [js ''x'', js ''y'', js ''z'', js ''componentId'', js ''MaterialId'',
      js ''True_Temp'', js ''Pred_Temp'', js ''Abs_Error'']"

definition has3DColumns :: "(jsstring \<Rightarrow> jsstring) \<Rightarrow> CSVData \<Rightarrow> bool" where
  "has3DColumns toLowerCase d =
     list_all
       (\<lambda>col. list_ex (\<lambda>header. toLowerCase header = toLowerCase col) (headers d))
       requiredColumns"

subsection \<open>Liveness probe\<close>

text \<open>\<open>checkTrameServer\<close>, given how its \<open>fetch\<close> ended.\<close>

definition checkTrameServer :: "FetchOutcome \<Rightarrow> Setter list" where
  "checkTrameServer outcome =
     (case outcome of
        Resolved response \<Rightarrow> [SetTrameServerRunning (ok response)]
      | Rejected \<Rightarrow> [SetTrameServerRunning False])"

subsection \<open>Scheduling of the probe\<close>

text \<open>
  The effect of \<open>Home\<close> runs against the host: a clock counting time units, and the
  interval timers registered with \<open>setInterval\<close>.  The page registers no callback other
  than \<open>checkTrameServer\<close>, so a timer records its handle, its delay and the time it is
  next due.  \<open>probes\<close> lists the times at which \<open>checkTrameServer\<close> was called, that is,
  at which a request was issued; \<open>cleanup\<close> is the handle kept by the function the
  effect returned, present while the view is mounted.
\<close>

record Timer =
  handle :: nat
  delay :: nat
  due :: nat

record Host =
  now :: nat
  timers :: "Timer list"
  nextHandle :: nat
  probes :: "nat list"
  cleanup :: "nat option"

definition initialHost :: Host where
  "initialHost = \<lparr>now = 0, timers = [], nextHandle = 1, probes = [], cleanup = None\<rparr>"

text \<open>A call of \<open>checkTrameServer\<close>: a request goes out at the current time.\<close>

definition invokeCheckTrameServer :: "Host \<Rightarrow> Host" where
  "invokeCheckTrameServer h = h\<lparr>probes := probes h @ [now h]\<rparr>"

text \<open>
  \<open>setInterval\<close> registers a timer first due one delay from now and returns its handle;
  \<open>clearInterval\<close> removes the timer with the handle given.
\<close>

definition setInterval :: "nat \<Rightarrow> Host \<Rightarrow> nat \<times> Host" where
  "setInterval d h =
     (nextHandle h,
      h\<lparr>timers := timers h @ [\<lparr>handle = nextHandle h, delay = d, due = now h + d\<rparr>],
        nextHandle := Suc (nextHandle h)\<rparr>)"

definition clearInterval :: "nat \<Rightarrow> Host \<Rightarrow> Host" where
  "clearInterval i h = h\<lparr>timers := filter (\<lambda>t. handle t \<noteq> i) (timers h)\<rparr>"

text \<open>
  The body of the effect: call \<open>checkTrameServer\<close>, then register it with the delay
  5000.  The handle returned is the one its cleanup function will clear.
\<close>

definition useEffect :: "Host \<Rightarrow> nat \<times> Host" where
  "useEffect h =
     (let h1 = invokeCheckTrameServer h;
          (interval, h2) = setInterval 5000 h1
      in (interval, h2))"

text \<open>
  The effect has an empty dependency list: its body runs when the view is initialized,
  and the function it returned runs when the view is torn down.
\<close>

definition mount :: "Host \<Rightarrow> Host" where
  "mount h = (let (interval, h') = useEffect h in h'\<lparr>cleanup := Some interval\<rparr>)"

definition unmount :: "Host \<Rightarrow> Host" where
  "unmount h =
     (case cleanup h of
        None \<Rightarrow> h
      | Some interval \<Rightarrow> (clearInterval interval h)\<lparr>cleanup := None\<rparr>)"

text \<open>
  One time unit passes: the clock advances, every timer that has come due calls
  \<open>checkTrameServer\<close>, and each of those is due again one delay later.
\<close>

fun fire :: "nat \<Rightarrow> Timer list \<Rightarrow> Host \<Rightarrow> Host" where
  "fire t [] h = h"
| "fire t (tm # tms) h =
     (if due tm \<le> t
      then fire t tms (invokeCheckTrameServer h)
      else fire t tms h)"

definition tick :: "Host \<Rightarrow> Host" where
  "tick h =
     (let t = now h + 1;
          h1 = fire t (timers h) (h\<lparr>now := t\<rparr>)
      in h1\<lparr>timers :=
              map (\<lambda>tm. if due tm \<le> t then tm\<lparr>due := t + delay tm\<rparr> else tm) (timers h)\<rparr>)"

fun elapse :: "nat \<Rightarrow> Host \<Rightarrow> Host" where
  "elapse 0 h = h"
| "elapse (Suc n) h = tick (elapse n h)"

subsection \<open>Blank rows\<close>

text \<open>
  The two ways the specification describes a blank row: every cell is the empty string
  after trimming, and every cell is empty or made of white space only.
\<close>

definition allBlank :: "jsstring list \<Rightarrow> bool" where
  "allBlank row = list_all (\<lambda>cell. trim cell = js '''') row"

definition whitespaceOnly :: "jsstring \<Rightarrow> bool" where
  "whitespaceOnly cell = list_all isWhiteSpace cell"

definition noBlankRows :: "HomeState \<Rightarrow> bool" where
  "noBlankRows s =
     (case csvData s of
        None \<Rightarrow> True
      | Some table \<Rightarrow> list_all (\<lambda>row. \<not> list_all whitespaceOnly row) (rows table))"

subsection \<open>The page as a transition system\<close>

text \<open>
  The handlers run one at a time on the UI thread.  Parsing is asynchronous: an accepted
  upload leaves a parse in flight, and its \<open>complete\<close> callback runs later, after any
  number of other handlers.  The parser and the server are outside the page, so a
  completion may carry any result and a probe may end in any way.
\<close>

record World =
  ui :: HomeState
  inflight :: "File list"

definition initialWorld :: World where
  "initialWorld = \<lparr>ui = initialState, inflight = []\<rparr>"

datatype Event =
    Upload "File option"
  | Parsed nat ParseResult
  | Clear
  | Probed FetchOutcome

fun step :: "Event \<Rightarrow> World \<Rightarrow> World option" where
  "step (Upload file0) w =
     Some \<lparr>ui = commit (fst (handleFileUpload file0)) (ui w),
           inflight =
             (case snd (handleFileUpload file0) of
                None \<Rightarrow> inflight w
              | Some file \<Rightarrow> inflight w @ [file])\<rparr>"
| "step (Parsed i results) w =
     (if i < length (inflight w)
      then Some \<lparr>ui = commit (complete results) (ui w),
                 inflight = take i (inflight w) @ drop (Suc i) (inflight w)\<rparr>
      else None)"
| "step Clear w = Some (w\<lparr>ui := commit clearData (ui w)\<rparr>)"
| "step (Probed outcome) w = Some (w\<lparr>ui := commit (checkTrameServer outcome) (ui w)\<rparr>)"

fun run :: "Event list \<Rightarrow> World \<Rightarrow> World option" where
  "run [] w = Some w"
| "run (e # es) w = (case step e w of None \<Rightarrow> None | Some w' \<Rightarrow> run es w')"

subsection \<open>Example inputs\<close>

text \<open>
  A result with rows and an error at once, as the parsing library gives for one-column
  text, where it finds no delimiter to detect: the rows \<open>a\<close> and \<open>1\<close>, and the error.
\<close>

definition oneColumnResult :: ParseResult where
  "oneColumnResult =
     \<lparr>data = [[js ''a''], [js ''1'']],
      errors = [ParseError (js ''UndetectableDelimiter'')
                  (js ''Unable to auto-detect delimiting character'')]\<rparr>"

definition exampleResult :: ParseResult where
  "exampleResult =
     \<lparr>data = [[js ''a'', js ''b''], [js ''1'', js ''2''], [js '''', js '''', js '''']],
      errors = []\<rparr>"

definition emptyResult :: ParseResult where
  "emptyResult = \<lparr>data = [], errors = []\<rparr>"

definition exampleTable :: CSVData where
  "exampleTable =
     \<lparr>headers = [js ''X'', js ''Y'', js ''Z'', js ''componentid'', js ''materialid'',
                 js ''true_temp'', js ''pred_temp'', js ''abs_error''],
      rows = []\<rparr>"

definition csvFile :: File where
  "csvFile = \<lparr>type = js ''text/csv'', name = js ''points.csv''\<rparr>"

definition excelCsvFile :: File where
  "excelCsvFile = \<lparr>type = js ''application/vnd.ms-excel'', name = js ''b.csv''\<rparr>"

definition upperCaseFile :: File where
  "upperCaseFile = \<lparr>type = js '''', name = js ''POINTS.CSV''\<rparr>"

definition loadedState :: HomeState where
  "loadedState =
     \<lparr>csvData = Some \<lparr>headers = [js ''a'', js ''b''], rows = [[js ''1'', js ''2'']]\<rparr>,
      loading = False, error = None, fileName = js ''points.csv'',
      trameServerRunning = True\<rparr>"

text \<open>The page while \<open>points.csv\<close> is being parsed, and once it has been parsed.\<close>

definition uploadingWorld :: World where
  "uploadingWorld =
     \<lparr>ui = initialState\<lparr>loading := True, fileName := js ''points.csv''\<rparr>,
      inflight = [csvFile]\<rparr>"

definition loadedWorld :: World where
  "loadedWorld = \<lparr>ui = loadedState\<lparr>trameServerRunning := False\<rparr>, inflight = []\<rparr>"

section \<open>Properties\<close>

subsection \<open>Strings and blank rows\<close>

lemma js_Nil: "js [] = []"
  by (simp add: js_def)

text \<open>A string trims to the empty string exactly when it has white space only.\<close>

lemma trim_empty_iff: "trim s = [] \<longleftrightarrow> (\<forall>c \<in> set s. isWhiteSpace c)"
proof
  assume "trim s = []"
  then have "dropWhile isWhiteSpace (rev (dropWhile isWhiteSpace s)) = []"
    by (simp add: trim_def)
  then have "\<forall>c \<in> set (dropWhile isWhiteSpace s). isWhiteSpace c"
    by simp
  then have "dropWhile isWhiteSpace s = []"
    by (metis hd_dropWhile hd_in_set)
  then show "\<forall>c \<in> set s. isWhiteSpace c"
    by simp
next
  assume "\<forall>c \<in> set s. isWhiteSpace c"
  then show "trim s = []"
    by (auto simp: trim_def dest: set_dropWhileD)
qed

text \<open>\<open>endsWith\<close> holds exactly when the string is some prefix followed by the suffix.\<close>

lemma endsWith_iff: "endsWith s t \<longleftrightarrow> (\<exists>p. s = p @ t)"
proof
  assume "endsWith s t"
  then have "s = take (length s - length t) s @ t"
    by (metis append_take_drop_id endsWith_def)
  then show "\<exists>p. s = p @ t" ..
next
  assume "\<exists>p. s = p @ t"
  then show "endsWith s t"
    by (auto simp: endsWith_def)
qed

text \<open>The two descriptions of a blank row agree.\<close>

lemma allBlank_iff: "allBlank row \<longleftrightarrow> list_all whitespaceOnly row"
  by (simp add: allBlank_def whitespaceOnly_def js_Nil trim_empty_iff list_all_iff)

text \<open>The filter of \<open>complete\<close> keeps exactly the rows that are not blank.\<close>

lemma kept_iff: "list_ex (\<lambda>cell. trim cell \<noteq> js '''') row \<longleftrightarrow> \<not> allBlank row"
  by (simp add: allBlank_def list_all_iff list_ex_iff)

lemma kept_eq: "list_ex (\<lambda>cell. trim cell \<noteq> js '''') = (\<lambda>row. \<not> allBlank row)"
  by (rule ext) (rule kept_iff)

lemma every_some_iff:
  "list_all (\<lambda>col. list_ex (\<lambda>header. f header = f col) hs) cols \<longleftrightarrow>
     f ` set cols \<subseteq> f ` set hs"
proof -
  have "(\<exists>h \<in> set hs. f h = f c) \<longleftrightarrow> f c \<in> f ` set hs" for c
    by (metis image_iff)
  then show ?thesis
    by (simp add: list_all_iff list_ex_iff image_subset_iff)
qed

subsection \<open>What each handler leaves alone\<close>

lemma csvData_upload: "csvData (commit (fst (handleFileUpload file0)) s) = csvData s"
  by (simp add: handleFileUpload_def split: option.split)

lemma csvData_probe: "csvData (commit (checkTrameServer outcome) s) = csvData s"
  by (simp add: checkTrameServer_def split: FetchOutcome.split)

lemma noBlankRows_complete: "noBlankRows s \<Longrightarrow> noBlankRows (commit (complete results) s)"
  by (simp add: complete_def noBlankRows_def kept_iff allBlank_iff list_all_iff)

lemma noBlankRows_step:
  assumes "noBlankRows (ui w)" and "step e w = Some w'"
  shows "noBlankRows (ui w')"
proof (cases e)
  case (Upload file0)
  with assms show ?thesis
    by (auto simp: noBlankRows_def csvData_upload)
next
  case (Parsed i results)
  with assms show ?thesis
    by (auto simp: noBlankRows_complete split: if_splits)
next
  case Clear
  with assms show ?thesis
    by (auto simp: noBlankRows_def clearData_def)
next
  case (Probed outcome)
  with assms show ?thesis
    by (auto simp: noBlankRows_def csvData_probe)
qed

lemma noBlankRows_run:
  "noBlankRows (ui w) \<Longrightarrow> run evs w = Some w' \<Longrightarrow> noBlankRows (ui w')"
proof (induction evs arbitrary: w)
  case Nil
  then show ?case by simp
next
  case (Cons e evs)
  then show ?case
    by (auto split: option.splits dest: noBlankRows_step)
qed

subsection \<open>C1: headers and rows of an ingested table\<close>

text \<open>
  C1 as stated, for every parse result with at least one row, does not hold: the
  callback looks at the parser's errors first.  For the one-column text \<open>a\<close>, \<open>1\<close> the
  parser reports both rows together with an error, and no table is set.
\<close>

theorem complete_rows_with_errors_no_table:
  "data oneColumnResult = [[js ''a''], [js ''1'']] \<and>
   csvData (commit (complete oneColumnResult) initialState) = None \<and>
   csvData (commit (complete oneColumnResult) initialState) \<noteq>
     Some \<lparr>headers = [js ''a''], rows = [[js ''1'']]\<rparr>"
  by (simp add: oneColumnResult_def complete_def initialState_def)

text \<open>
  C1, amended: for every parse result with no errors and at least one row, the table set
  has the first parsed row as its headers, unchanged, and as its rows the later rows
  that are not all-blank, in their order; a row is all-blank iff each of its cells is
  the empty string after trimming.
\<close>

theorem complete_builds_table:
  assumes "errors results = []" and "data results = first # rest"
  shows "complete results =
           [SetCsvData
              (Some \<lparr>headers = first, rows = filter (\<lambda>row. \<not> allBlank row) rest\<rparr>),
            SetLoading False] \<and>
         csvData (commit (complete results) s) =
           Some \<lparr>headers = first, rows = filter (\<lambda>row. \<not> allBlank row) rest\<rparr>"
  using assms by (simp add: complete_def kept_eq)

text \<open>The example of the specification: the blank third row is dropped.\<close>

theorem complete_builds_table_witness:
  "errors exampleResult = [] \<and>
   data exampleResult =
     [js ''a'', js ''b''] # [[js ''1'', js ''2''], [js '''', js '''', js '''']] \<and>
   csvData (commit (complete exampleResult) initialState) =
     Some \<lparr>headers = [js ''a'', js ''b''], rows = [[js ''1'', js ''2'']]\<rparr>"
proof -
  have e: "errors exampleResult = []"
    by (simp add: exampleResult_def)
  have d: "data exampleResult =
             [js ''a'', js ''b''] # [[js ''1'', js ''2''], [js '''', js '''', js '''']]"
    by (simp add: exampleResult_def)
  have k: "filter (\<lambda>row. \<not> allBlank row)
             [[js ''1'', js ''2''], [js '''', js '''', js '''']] = [[js ''1'', js ''2'']]"
    by (simp add: allBlank_def js_def trim_def isWhiteSpace_def)
  show ?thesis
    using complete_builds_table [OF e d, of initialState] e d k by simp
qed

subsection \<open>C2: the 3-D compatibility predicate\<close>

text \<open>
  C2: the predicate is true iff each of the eight names x, y, z, componentId,
  MaterialId, True_Temp, Pred_Temp, Abs_Error is equal, after lower-casing, to some
  header after lower-casing.  The right-hand side depends on the headers only through
  the set of their lower-cased forms, so extra headers, order and casing do not matter.
\<close>

theorem has3DColumns_iff:
  "has3DColumns toLowerCase d \<longleftrightarrow>
     toLowerCase ` {js ''x'', js ''y'', js ''z'', js ''componentId'', js ''MaterialId'',
                    js ''True_Temp'', js ''Pred_Temp'', js ''Abs_Error''}
       \<subseteq> toLowerCase ` set (headers d)"
  by (simp add: has3DColumns_def every_some_iff requiredColumns_def)

text \<open>The example of the specification: upper-case and lower-case headers match.\<close>

theorem has3DColumns_iff_witness:
  "has3DColumns asciiLower exampleTable \<and>
   asciiLower ` {js ''x'', js ''y'', js ''z'', js ''componentId'', js ''MaterialId'',
                 js ''True_Temp'', js ''Pred_Temp'', js ''Abs_Error''}
     \<subseteq> asciiLower ` set (headers exampleTable)"
proof -
  have "has3DColumns asciiLower exampleTable"
    by (simp add: has3DColumns_def requiredColumns_def exampleTable_def js_def
        asciiLower_def asciiLowerUnit_def)
  then show ?thesis
    using has3DColumns_iff [of asciiLower exampleTable] by simp
qed

subsection \<open>C3: the file-type check\<close>

text \<open>
  C3: a file whose type is not \<open>text/csv\<close> and whose name does not end in \<open>.csv\<close> gets
  the validation error, is not handed to the parser, and leaves the table as it was; a
  file with that type, or with such a name, is handed to the parser and no error is
  shown for it.
\<close>

theorem upload_type_check:
  "(type file \<noteq> js ''text/csv'' \<and> \<not> (\<exists>p. name file = p @ js ''.csv'') \<longrightarrow>
      handleFileUpload (Some file) =
        ([SetError (Some (js ''Please upload a valid CSV file''))], None) \<and>
      error (commit (fst (handleFileUpload (Some file))) s) =
        Some (js ''Please upload a valid CSV file'') \<and>
      csvData (commit (fst (handleFileUpload (Some file))) s) = csvData s) \<and>
   (type file = js ''text/csv'' \<or> (\<exists>p. name file = p @ js ''.csv'') \<longrightarrow>
      snd (handleFileUpload (Some file)) = Some file \<and>
      error (commit (fst (handleFileUpload (Some file))) s) = None)"
  by (auto simp: handleFileUpload_def endsWith_iff)

text \<open>
  \<open>POINTS.CSV\<close> with no declared type is rejected (the suffix is compared as written);
  \<open>b.csv\<close> declared as a spreadsheet, and \<open>points.csv\<close> declared as CSV, are accepted.
\<close>

theorem upload_type_check_witness:
  "type upperCaseFile \<noteq> js ''text/csv'' \<and>
   \<not> (\<exists>p. name upperCaseFile = p @ js ''.csv'') \<and>
   handleFileUpload (Some upperCaseFile) =
     ([SetError (Some (js ''Please upload a valid CSV file''))], None) \<and>
   csvData (commit (fst (handleFileUpload (Some upperCaseFile))) loadedState) =
     csvData loadedState \<and>
   (\<exists>p. name excelCsvFile = p @ js ''.csv'') \<and>
   snd (handleFileUpload (Some excelCsvFile)) = Some excelCsvFile \<and>
   type csvFile = js ''text/csv'' \<and>
   snd (handleFileUpload (Some csvFile)) = Some csvFile"
proof -
  have a: "type upperCaseFile \<noteq> js ''text/csv''"
    by (simp add: upperCaseFile_def js_def)
  have b: "\<not> (\<exists>p. name upperCaseFile = p @ js ''.csv'')"
    unfolding endsWith_iff [symmetric]
    by (simp add: upperCaseFile_def js_def endsWith_def)
  have c: "\<exists>p. name excelCsvFile = p @ js ''.csv''"
    unfolding endsWith_iff [symmetric]
    by (simp add: excelCsvFile_def js_def endsWith_def)
  have d: "type csvFile = js ''text/csv''"
    by (simp add: csvFile_def)
  show ?thesis
    using a b c d upload_type_check [of upperCaseFile loadedState]
      upload_type_check [of excelCsvFile loadedState]
      upload_type_check [of csvFile loadedState]
    by blast
qed

subsection \<open>C4: the three outcomes of a parse\<close>

text \<open>
  C4: when the parser reports errors the message is \<open>Error parsing CSV file\<close> and the
  table setter is not called; with no errors and no rows the message is
  \<open>CSV file is empty\<close> and the table setter is not called; in the remaining case, and
  only then, the table setter is called with a table and the error setter is not called,
  so the error stays as the accepted upload left it, absent.
\<close>

theorem complete_outcomes:
  "(errors results \<noteq> [] \<longrightarrow>
      complete results = [SetError (Some (js ''Error parsing CSV file'')), SetLoading False] \<and>
      error (commit (complete results) s) = Some (js ''Error parsing CSV file'') \<and>
      \<not> list_ex setsCsvData (complete results) \<and>
      csvData (commit (complete results) s) = csvData s) \<and>
   (errors results = [] \<and> data results = [] \<longrightarrow>
      complete results = [SetError (Some (js ''CSV file is empty'')), SetLoading False] \<and>
      error (commit (complete results) s) = Some (js ''CSV file is empty'') \<and>
      \<not> list_ex setsCsvData (complete results) \<and>
      csvData (commit (complete results) s) = csvData s) \<and>
   (errors results = [] \<and> data results \<noteq> [] \<longrightarrow>
      list_ex setsCsvData (complete results) \<and>
      csvData (commit (complete results) s) \<noteq> None \<and>
      \<not> list_ex setsError (complete results) \<and>
      error (commit (complete results) s) = error s) \<and>
   (errors results = [] \<and> data results \<noteq> [] \<and> snd (handleFileUpload (Some file)) = Some file \<longrightarrow>
      error (commit (complete results) (commit (fst (handleFileUpload (Some file))) s)) = None)"
  by (auto simp: complete_def handleFileUpload_def split: if_splits)

theorem complete_outcomes_witness:
  "errors oneColumnResult \<noteq> [] \<and>
   error (commit (complete oneColumnResult) loadedState) = Some (js ''Error parsing CSV file'') \<and>
   csvData (commit (complete oneColumnResult) loadedState) = csvData loadedState \<and>
   errors emptyResult = [] \<and> data emptyResult = [] \<and>
   error (commit (complete emptyResult) loadedState) = Some (js ''CSV file is empty'') \<and>
   csvData (commit (complete emptyResult) loadedState) = csvData loadedState \<and>
   errors exampleResult = [] \<and> data exampleResult \<noteq> [] \<and>
   snd (handleFileUpload (Some csvFile)) = Some csvFile \<and>
   list_ex setsCsvData (complete exampleResult) \<and>
   error (commit (complete exampleResult)
     (commit (fst (handleFileUpload (Some csvFile))) loadedState)) = None"
proof -
  have a: "errors oneColumnResult \<noteq> []"
    by (simp add: oneColumnResult_def)
  have b: "errors emptyResult = [] \<and> data emptyResult = []"
    by (simp add: emptyResult_def)
  have c: "errors exampleResult = [] \<and> data exampleResult \<noteq> []"
    by (simp add: exampleResult_def)
  have d: "snd (handleFileUpload (Some csvFile)) = Some csvFile"
    by (simp add: handleFileUpload_def csvFile_def)
  show ?thesis
    using a b c d complete_outcomes [of oneColumnResult loadedState csvFile]
      complete_outcomes [of emptyResult loadedState csvFile]
      complete_outcomes [of exampleResult loadedState csvFile]
    by simp
qed

subsection \<open>C5: the result of a probe\<close>

text \<open>
  C5: a response with a status from 200 to 299 sets the reachable flag to true, a
  response with any other status sets it to false, and a request that throws sets it to
  false.
\<close>

theorem probe_sets_flag:
  "(200 \<le> status response \<and> status response \<le> 299 \<longrightarrow>
      checkTrameServer (Resolved response) = [SetTrameServerRunning True] \<and>
      trameServerRunning (commit (checkTrameServer (Resolved response)) s)) \<and>
   (status response < 200 \<or> 299 < status response \<longrightarrow>
      checkTrameServer (Resolved response) = [SetTrameServerRunning False] \<and>
      \<not> trameServerRunning (commit (checkTrameServer (Resolved response)) s)) \<and>
   checkTrameServer Rejected = [SetTrameServerRunning False] \<and>
   \<not> trameServerRunning (commit (checkTrameServer Rejected) s)"
  by (auto simp: checkTrameServer_def ok_def)

theorem probe_sets_flag_witness:
  "trameServerRunning (commit (checkTrameServer (Resolved \<lparr>status = 200\<rparr>)) initialState) \<and>
   trameServerRunning loadedState \<and>
   \<not> trameServerRunning (commit (checkTrameServer (Resolved \<lparr>status = 404\<rparr>)) loadedState) \<and>
   \<not> trameServerRunning (commit (checkTrameServer Rejected) loadedState)"
  using probe_sets_flag [of "\<lparr>status = 200\<rparr>" initialState]
    probe_sets_flag [of "\<lparr>status = 404\<rparr>" loadedState]
  by (simp add: loadedState_def)

subsection \<open>C6: when the probe runs\<close>

text \<open>The timer of the effect is due at the next multiple of 5000 after the mount.\<close>

lemma next_due_bound: "n < 5000 * (n div 5000 + 1)" for n :: nat
  using dividend_less_times_div [of 5000 n] by simp

lemma step_fires:
  assumes "5000 * (n div 5000 + 1) \<le> Suc n"
  shows "Suc n div 5000 = n div 5000 + 1 \<and> Suc n = 5000 * (n div 5000 + 1)"
proof -
  have e: "Suc n = 5000 * (n div 5000 + 1)"
    using assms next_due_bound [of n] by linarith
  have "Suc n div 5000 = (5000 * (n div 5000 + 1)) div 5000"
    by (simp only: e [symmetric])
  then have "Suc n div 5000 = n div 5000 + 1"
    by simp
  with e show ?thesis by blast
qed

lemma step_waits:
  assumes "\<not> 5000 * (n div 5000 + 1) \<le> Suc n"
  shows "Suc n div 5000 = n div 5000"
proof (rule div_nat_eqI)
  have "5000 * (n div 5000) \<le> n"
    by simp
  then show "5000 * (n div 5000) \<le> Suc n"
    by linarith
  show "Suc n < 5000 * Suc (n div 5000)"
    using assms by simp
qed

lemma mount_eq:
  "mount h =
     h\<lparr>timers := timers h @ [\<lparr>handle = nextHandle h, delay = 5000, due = now h + 5000\<rparr>],
       nextHandle := Suc (nextHandle h),
       probes := probes h @ [now h],
       cleanup := Some (nextHandle h)\<rparr>"
  by (simp add: mount_def useEffect_def setInterval_def invokeCheckTrameServer_def)

lemma elapse_mounted:
  assumes "timers h = []"
  shows "elapse n (mount h) =
     h\<lparr>now := now h + n,
       timers := [\<lparr>handle = nextHandle h, delay = 5000,
                  due = now h + 5000 * (n div 5000 + 1)\<rparr>],
       nextHandle := Suc (nextHandle h),
       probes := probes h @ now h # map (\<lambda>k. now h + 5000 * k) [1..<Suc (n div 5000)],
       cleanup := Some (nextHandle h)\<rparr>"
proof (induction n)
  case 0
  show ?case using assms by (simp add: mount_eq)
next
  case (Suc n)
  show ?case
  proof (cases "5000 * (n div 5000 + 1) \<le> Suc n")
    case True
    note f = step_fires [OF True]
    have d: "now h + 5000 * (n div 5000 + 1) \<le> now h + n + 1"
      using True by simp
    show ?thesis
      using d f by (simp add: Suc tick_def invokeCheckTrameServer_def Let_def)
  next
    case False
    note w = step_waits [OF False]
    have d: "\<not> now h + 5000 * (n div 5000 + 1) \<le> now h + n + 1"
      using False by simp
    show ?thesis
      using d w by (simp add: Suc tick_def Let_def)
  qed
qed

lemma elapse_idle: "timers h = [] \<Longrightarrow> elapse n h = h\<lparr>now := now h + n\<rparr>"
  by (induction n) (simp_all add: tick_def Let_def)

text \<open>
  C6: when the view is initialized, with no timer registered, the probe is called exactly
  once, at once; while the view stays mounted it is called again every 5000 time units
  after that, and at no other time; tearing the view down clears the timer, and however
  much time passes afterwards no further probe is called.
\<close>

theorem probe_schedule:
  assumes "timers h = []"
  shows "probes (mount h) = probes h @ [now h] \<and>
         probes (elapse n (mount h)) =
           probes h @ now h # map (\<lambda>k. now h + 5000 * k) [1..<Suc (n div 5000)] \<and>
         timers (elapse n (mount h)) =
           [\<lparr>handle = nextHandle h, delay = 5000, due = now h + 5000 * (n div 5000 + 1)\<rparr>] \<and>
         timers (unmount (elapse n (mount h))) = [] \<and>
         probes (elapse m (unmount (elapse n (mount h)))) = probes (elapse n (mount h))"
proof -
  note e = elapse_mounted [OF assms, of n]
  have a: "probes (mount h) = probes h @ [now h]"
    by (simp add: mount_eq)
  have b: "probes (elapse n (mount h)) =
             probes h @ now h # map (\<lambda>k. now h + 5000 * k) [1..<Suc (n div 5000)]"
    by (simp add: e)
  have c: "timers (elapse n (mount h)) =
             [\<lparr>handle = nextHandle h, delay = 5000, due = now h + 5000 * (n div 5000 + 1)\<rparr>]"
    by (simp add: e)
  have k: "cleanup (elapse n (mount h)) = Some (nextHandle h)"
    by (simp add: e)
  have u: "timers (unmount (elapse n (mount h))) = []"
    by (simp add: unmount_def clearInterval_def k c)
  have p: "probes (unmount (elapse n (mount h))) = probes (elapse n (mount h))"
    by (simp add: unmount_def clearInterval_def k)
  have q: "probes (elapse m (unmount (elapse n (mount h)))) = probes (elapse n (mount h))"
    by (simp add: elapse_idle [OF u] p)
  show ?thesis
    using a b c u q by blast
qed

text \<open>
  Mounted at time 0: one probe at 0, none up to 4999, the next at 5000 and at 10000;
  torn down at 12000, nothing more in the next 20000 units.
\<close>

theorem probe_schedule_witness:
  "timers initialHost = [] \<and>
   probes (mount initialHost) = [0] \<and>
   probes (elapse 4999 (mount initialHost)) = [0] \<and>
   probes (elapse 5000 (mount initialHost)) = [0, 5000] \<and>
   probes (elapse 12000 (mount initialHost)) = [0, 5000, 10000] \<and>
   timers (unmount (elapse 12000 (mount initialHost))) = [] \<and>
   probes (elapse 20000 (unmount (elapse 12000 (mount initialHost)))) = [0, 5000, 10000]"
proof -
  have a: "timers initialHost = []"
    by (simp add: initialHost_def)
  have b: "probes initialHost = [] \<and> now initialHost = 0"
    by (simp add: initialHost_def)
  have c: "[1..<Suc (4999 div 5000)] = [] \<and> [1..<Suc (5000 div 5000)] = [1] \<and>
           [1..<Suc (12000 div 5000)] = [Suc 0, 2]"
    by (simp add: upt_rec)
  show ?thesis
    using a b c probe_schedule [OF a, of 4999 0] probe_schedule [OF a, of 5000 0]
      probe_schedule [OF a, of 12000 20000]
    by simp
qed

subsection \<open>C7: clearing\<close>

text \<open>
  C7: from any state, clearing leaves the table absent, the file name empty and the
  error absent, and changes nothing else.  The three setters are called in one handler,
  and the page moves from the state before to the state after in one transition.
\<close>

theorem clearData_resets_together:
  "commit clearData s = s\<lparr>csvData := None, fileName := js '''', error := None\<rparr> \<and>
   csvData (commit clearData s) = None \<and>
   fileName (commit clearData s) = js '''' \<and>
   error (commit clearData s) = None \<and>
   loading (commit clearData s) = loading s \<and>
   trameServerRunning (commit clearData s) = trameServerRunning s \<and>
   step Clear w =
     Some (w\<lparr>ui := (ui w)\<lparr>csvData := None, fileName := js '''', error := None\<rparr>\<rparr>)"
  by (simp add: clearData_def)

theorem clearData_resets_together_witness:
  "commit clearData loadedState =
     \<lparr>csvData = None, loading = False, error = None, fileName = js '''',
      trameServerRunning = True\<rparr>"
  using clearData_resets_together [of loadedState initialWorld]
  by (simp add: loadedState_def)

subsection \<open>C8: no blank row in a table\<close>

text \<open>
  C8: in every state reached from the initial one by uploads, parse completions, clears
  and probe results, in any order, a table that is present has no row whose cells are
  all empty or white space only; and every single transition keeps this property.
\<close>

theorem no_blank_rows_invariant:
  "(run evs initialWorld = Some w \<longrightarrow> noBlankRows (ui w)) \<and>
   (noBlankRows (ui w0) \<and> step e w0 = Some w1 \<longrightarrow> noBlankRows (ui w1))"
proof -
  have "noBlankRows (ui initialWorld)"
    by (simp add: noBlankRows_def initialWorld_def initialState_def)
  then show ?thesis
    using noBlankRows_run noBlankRows_step by blast
qed

theorem no_blank_rows_invariant_witness:
  "run [Upload (Some csvFile), Parsed 0 exampleResult] initialWorld = Some loadedWorld \<and>
   noBlankRows (ui uploadingWorld) \<and>
   step (Parsed 0 exampleResult) uploadingWorld = Some loadedWorld \<and>
   noBlankRows (ui loadedWorld)"
proof -
  have t: "trim (js ''1'') \<noteq> [] \<and> trim (js ''2'') \<noteq> [] \<and> trim (js '''') = []"
    by (simp add: trim_def js_def isWhiteSpace_def)
  have p: "step (Parsed 0 exampleResult) uploadingWorld = Some loadedWorld"
    using t
    by (simp add: uploadingWorld_def loadedWorld_def initialState_def exampleResult_def
        complete_def loadedState_def js_Nil)
  have u: "step (Upload (Some csvFile)) initialWorld = Some uploadingWorld"
    by (simp add: initialWorld_def uploadingWorld_def initialState_def csvFile_def
        handleFileUpload_def)
  have r: "run [Upload (Some csvFile), Parsed 0 exampleResult] initialWorld = Some loadedWorld"
    by (simp only: run.simps u p option.case)
  have n: "noBlankRows (ui uploadingWorld)"
    by (simp add: noBlankRows_def uploadingWorld_def initialState_def)
  show ?thesis
    using r p n
      no_blank_rows_invariant
        [of "[Upload (Some csvFile), Parsed 0 exampleResult]" loadedWorld
          uploadingWorld "Parsed 0 exampleResult" loadedWorld]
    by simp
qed

subsection \<open>C9: a failed upload changes the file name and keeps the table\<close>

text \<open>
  C9: for an upload that passes the file-type check and then fails (parser errors, or no
  rows), the file name is set to the new file's name when the upload is accepted, before
  the parse completes, and stays so after the failure, while the table is the one from
  before the upload; the name and the table shown can then come from different uploads.
\<close>

theorem failed_upload_renames_keeps_table:
  assumes "type file = js ''text/csv'' \<or> endsWith (name file) (js ''.csv'')"
    and "errors results \<noteq> [] \<or> data results = []"
    and "s1 = commit (fst (handleFileUpload (Some file))) s"
    and "s2 = commit (complete results) s1"
  shows "snd (handleFileUpload (Some file)) = Some file \<and>
         fileName s1 = name file \<and> csvData s1 = csvData s \<and> loading s1 \<and>
         fileName s2 = name file \<and> csvData s2 = csvData s \<and> \<not> loading s2 \<and>
         error s2 =
           Some (if errors results \<noteq> [] then js ''Error parsing CSV file''
                 else js ''CSV file is empty'')"
  using assms by (auto simp: handleFileUpload_def complete_def)

text \<open>
  With the table of \<open>points.csv\<close> on the page, a failing \<open>b.csv\<close> leaves that table
  under the name \<open>b.csv\<close>.
\<close>

theorem failed_upload_renames_keeps_table_witness:
  "(type excelCsvFile = js ''text/csv'' \<or> endsWith (name excelCsvFile) (js ''.csv'')) \<and>
   errors oneColumnResult \<noteq> [] \<and>
   fileName loadedState = js ''points.csv'' \<and>
   fileName (commit (complete oneColumnResult)
     (commit (fst (handleFileUpload (Some excelCsvFile))) loadedState)) = js ''b.csv'' \<and>
   csvData (commit (complete oneColumnResult)
     (commit (fst (handleFileUpload (Some excelCsvFile))) loadedState)) =
     Some \<lparr>headers = [js ''a'', js ''b''], rows = [[js ''1'', js ''2'']]\<rparr> \<and>
   js ''b.csv'' \<noteq> js ''points.csv''"
proof -
  have a: "type excelCsvFile = js ''text/csv'' \<or> endsWith (name excelCsvFile) (js ''.csv'')"
    by (simp add: excelCsvFile_def js_def endsWith_def)
  have b: "errors oneColumnResult \<noteq> [] \<or> data oneColumnResult = []"
    by (simp add: oneColumnResult_def)
  have c: "js ''b.csv'' \<noteq> js ''points.csv''"
    by (simp add: js_def)
  have d: "name excelCsvFile = js ''b.csv''"
    by (simp add: excelCsvFile_def)
  have e: "errors oneColumnResult \<noteq> []"
    by (simp add: oneColumnResult_def)
  have f: "fileName loadedState = js ''points.csv'' \<and>
           csvData loadedState =
             Some \<lparr>headers = [js ''a'', js ''b''], rows = [[js ''1'', js ''2'']]\<rparr>"
    by (simp add: loadedState_def)
  show ?thesis
    using a c d e f failed_upload_renames_keeps_table [OF a b refl refl, of loadedState]
    by simp
qed

subsection \<open>C10: a rejected upload changes the error only\<close>

text \<open>
  C10: for an upload rejected by the file-type check the only setter called is the one
  of the error; the table, the file name, the loading flag and the reachable flag are
  what they were.
\<close>

theorem rejected_upload_only_sets_error:
  assumes "type file \<noteq> js ''text/csv''" and "\<not> endsWith (name file) (js ''.csv'')"
  shows "fst (handleFileUpload (Some file)) =
           [SetError (Some (js ''Please upload a valid CSV file''))] \<and>
         commit (fst (handleFileUpload (Some file))) s =
           s\<lparr>error := Some (js ''Please upload a valid CSV file'')\<rparr> \<and>
         csvData (commit (fst (handleFileUpload (Some file))) s) = csvData s \<and>
         fileName (commit (fst (handleFileUpload (Some file))) s) = fileName s \<and>
         loading (commit (fst (handleFileUpload (Some file))) s) = loading s \<and>
         trameServerRunning (commit (fst (handleFileUpload (Some file))) s) =
           trameServerRunning s"
  using assms by (simp add: handleFileUpload_def)

theorem rejected_upload_only_sets_error_witness:
  "type upperCaseFile \<noteq> js ''text/csv'' \<and> \<not> endsWith (name upperCaseFile) (js ''.csv'') \<and>
   commit (fst (handleFileUpload (Some upperCaseFile))) loadedState =
     loadedState\<lparr>error := Some (js ''Please upload a valid CSV file'')\<rparr> \<and>
   fileName (commit (fst (handleFileUpload (Some upperCaseFile))) loadedState) =
     js ''points.csv''"
proof -
  have a: "type upperCaseFile \<noteq> js ''text/csv''"
    by (simp add: upperCaseFile_def js_def)
  have b: "\<not> endsWith (name upperCaseFile) (js ''.csv'')"
    by (simp add: upperCaseFile_def js_def endsWith_def)
  have c: "fileName loadedState = js ''points.csv''"
    by (simp add: loadedState_def)
  show ?thesis
    using a b c rejected_upload_only_sets_error [OF a b, of loadedState]
    by simp
qed

end
